theory Spec2Isabelle
  imports Main
begin

section \<open>Python values used by http_server.py\<close>

text \<open>
  A Python \<open>str\<close> is a sequence of Unicode code points, a \<open>bytes\<close> object a sequence of
  octets. The two are kept apart: \<open>str.encode("utf8")\<close> is the only way from the first to
  the second in the source.
\<close>

type_synonym pystr = "nat list"
type_synonym bytes = "char list"

text \<open>An ASCII literal of the source read as a \<open>str\<close>.\<close>

definition str_lit :: "string \<Rightarrow> pystr" where
  "str_lit s = map of_char s"

definition CRLF :: bytes where
  "CRLF = [CHR 0x0D, CHR 0x0A]"

text \<open>The exceptions that the source raises, catches, or receives from the library.\<close>

datatype py_error =
    IndexError
  | ValueError
  | NameError
  | TypeError
  | AttributeError
  | UnicodeEncodeError
  | UnicodeDecodeError
  | CalledProcessError
  | OSError

subsection \<open>\<open>bytes.join\<close>\<close>

fun bytes_join :: "bytes \<Rightarrow> bytes list \<Rightarrow> bytes" where
  "bytes_join sep [] = []"
| "bytes_join sep [x] = x"
| "bytes_join sep (x # y # ys) = x @ sep @ bytes_join sep (y # ys)"

section \<open>Response builders\<close>

text \<open>
  The three error builders also print one line to the log sink; the log is not part of
  the value returned and is left out of the model.
\<close>

definition response_ok :: "bytes \<Rightarrow> bytes \<Rightarrow> bytes" where
  "response_ok body mimetype =
     bytes_join CRLF [''HTTP/1.1 200 OK'', ''Content-Type: '' @ mimetype, [], body]"

definition response_method_not_allowed :: bytes where
  "response_method_not_allowed = bytes_join CRLF [''HTTP/1.1 405 Method Not Allowed'']"

definition response_not_found :: bytes where
  "response_not_found = bytes_join CRLF [''HTTP/1.1 404 Not Found'']"

definition not_implemented :: bytes where
  "not_implemented = bytes_join CRLF [''HTTP/1.1 501 Not Implemented'']"

section \<open>The \<open>str\<close> methods the parser calls\<close>

text \<open>
  \<open>str.splitlines()\<close> ends a line at each of the code points below, takes a carriage
  return followed by a line feed as one boundary, and does not report an empty line after
  a final boundary; the empty string has no lines.
\<close>

definition is_linebreak :: "nat \<Rightarrow> bool" where
  "is_linebreak c \<longleftrightarrow>
     c = 0x0A \<or> c = 0x0B \<or> c = 0x0C \<or> c = 0x0D \<or> c = 0x1C \<or> c = 0x1D \<or> c = 0x1E
     \<or> c = 0x85 \<or> c = 0x2028 \<or> c = 0x2029"

text \<open>The text that follows a boundary character \<open>c\<close> whose successors are \<open>cs\<close>.\<close>

fun after_break :: "nat \<Rightarrow> pystr \<Rightarrow> pystr" where
  "after_break c [] = []"
| "after_break c (d # ds) = (if c = 0x0D \<and> d = 0x0A then ds else d # ds)"

text \<open>
  \<open>take_line s\<close> is the first line of a non-empty \<open>s\<close> together with what is left
  after its boundary.
\<close>

fun take_line :: "pystr \<Rightarrow> pystr \<times> pystr" where
  "take_line [] = ([], [])"
| "take_line (c # cs) =
     (if is_linebreak c then ([], after_break c cs)
      else (case take_line cs of (l, r) \<Rightarrow> (c # l, r)))"

lemma after_break_length: "length (after_break c cs) \<le> length cs"
  by (cases cs) auto

lemma take_line_length: "length (snd (take_line s)) \<le> length s"
proof (induction s)
  case Nil
  show ?case by simp
next
  case (Cons c cs)
  show ?case
  proof (cases "is_linebreak c")
    case True
    then show ?thesis using after_break_length [of c cs] by simp
  next
    case False
    then show ?thesis using Cons.IH by (simp add: split_def)
  qed
qed

function splitlines :: "pystr \<Rightarrow> pystr list" where
  "splitlines [] = []"
| "splitlines (c # cs) = fst (take_line (c # cs)) # splitlines (snd (take_line (c # cs)))"
  by pat_completeness auto
termination
proof (relation "measure length")
  show "wf (measure length)" by simp
next
  fix c :: nat and cs :: pystr
  have "length (snd (take_line (c # cs))) \<le> length cs"
  proof (cases "is_linebreak c")
    case True
    then show ?thesis using after_break_length [of c cs] by simp
  next
    case False
    then show ?thesis using take_line_length [of cs] by (simp add: split_def)
  qed
  then show "(snd (take_line (c # cs)), c # cs) \<in> measure length" by simp
qed

text \<open>
  \<open>str.split()\<close> without a separator: the maximal runs of non-whitespace characters,
  whitespace being the code points for which \<open>str.isspace\<close> holds.
\<close>

definition isspace :: "nat \<Rightarrow> bool" where
  "isspace c \<longleftrightarrow>
     (0x09 \<le> c \<and> c \<le> 0x0D) \<or> (0x1C \<le> c \<and> c \<le> 0x20) \<or> c = 0x85 \<or> c = 0xA0
     \<or> c = 0x1680 \<or> (0x2000 \<le> c \<and> c \<le> 0x200A) \<or> c = 0x2028 \<or> c = 0x2029
     \<or> c = 0x202F \<or> c = 0x205F \<or> c = 0x3000"

fun split_ws_from :: "pystr \<Rightarrow> pystr \<Rightarrow> pystr list" where
  "split_ws_from cur [] = (if cur = [] then [] else [cur])"
| "split_ws_from cur (c # cs) =
     (if isspace c then (if cur = [] then split_ws_from [] cs else cur # split_ws_from [] cs)
      else split_ws_from (cur @ [c]) cs)"

definition split_ws :: "pystr \<Rightarrow> pystr list" where
  "split_ws s = split_ws_from [] s"

text \<open>
  \<open>s.split(sep)\<close> with a non-empty separator and no limit: \<open>s\<close> is cut at every
  occurrence of \<open>sep\<close>, found from left to right without overlap. \<open>cur\<close> holds the
  characters of the piece being read.
\<close>

function split_sep_from :: "pystr \<Rightarrow> pystr \<Rightarrow> pystr \<Rightarrow> pystr list" where
  "split_sep_from sep cur [] = [cur]"
| "split_sep_from sep cur (c # cs) =
     (if sep \<noteq> [] \<and> take (length sep) (c # cs) = sep
      then cur # split_sep_from sep [] (drop (length sep) (c # cs))
      else split_sep_from sep (cur @ [c]) cs)"
  by pat_completeness auto
termination
  by (relation "measure (\<lambda>(sep, cur, s). length s)") auto

definition split_sep :: "pystr \<Rightarrow> pystr \<Rightarrow> pystr list" where
  "split_sep s sep = split_sep_from sep [] s"

section \<open>Request parser\<close>

text \<open>
  The sentinel \<open>False\<close> of method, uri and version is \<open>None\<close>; \<open>truthy\<close> is Python's
  truth value of such a field (\<open>False\<close> and the empty string are false).
\<close>

type_synonym headers = "pystr \<rightharpoonup> pystr"
type_synonym request = "pystr option \<times> pystr option \<times> pystr option \<times> headers"

fun truthy :: "pystr option \<Rightarrow> bool" where
  "truthy None = False"
| "truthy (Some s) = (s \<noteq> [])"

text \<open>The loop over \<open>request_lines[1:]\<close>; a line must split into exactly a key and a value.\<close>

fun parse_headers :: "headers \<Rightarrow> pystr list \<Rightarrow> py_error + headers" where
  "parse_headers hs [] = Inr hs"
| "parse_headers hs (line # ls) =
     (if line \<noteq> [] then
        (case split_sep line (str_lit '': '') of
           [key, val] \<Rightarrow> parse_headers (hs(key \<mapsto> val)) ls
         | _ \<Rightarrow> Inl ValueError)
      else parse_headers hs ls)"

text \<open>The body of the \<open>try\<close>: indexing line 0, unpacking three tokens, then the headers.\<close>

definition parse_request_try :: "pystr list \<Rightarrow> py_error + request" where
  "parse_request_try request_lines =
     (case request_lines of
        [] \<Rightarrow> Inl IndexError
      | first # rest \<Rightarrow>
          (case split_ws first of
             [method, uri, version] \<Rightarrow>
               (case parse_headers Map.empty rest of
                  Inl e \<Rightarrow> Inl e
                | Inr hs \<Rightarrow> Inr (Some method, Some uri, Some version, hs))
           | _ \<Rightarrow> Inl ValueError))"

text \<open>
  Only \<open>IndexError\<close> is caught; it is raised before any of the four results is assigned,
  so the fall-through values are returned. Any other exception leaves the function.
\<close>

definition parse_request :: "pystr \<Rightarrow> py_error + request" where
  "parse_request request =
     (case parse_request_try (splitlines request) of
        Inl IndexError \<Rightarrow> Inr (None, None, None, Map.empty)
      | Inl e \<Rightarrow> Inl e
      | Inr r \<Rightarrow> Inr r)"

section \<open>URI resolver\<close>

subsection \<open>Library functions\<close>

text \<open>\<open>s.strip(chars)\<close> removes the characters of \<open>chars\<close> from both ends of \<open>s\<close>.\<close>

definition strip_chars :: "pystr \<Rightarrow> pystr \<Rightarrow> pystr" where
  "strip_chars s chars =
     rev (dropWhile (\<lambda>c. c \<in> set chars) (rev (dropWhile (\<lambda>c. c \<in> set chars) s)))"

definition startswith :: "pystr \<Rightarrow> pystr \<Rightarrow> bool" where
  "startswith s p \<longleftrightarrow> take (length p) s = p"

definition endswith :: "pystr \<Rightarrow> pystr \<Rightarrow> bool" where
  "endswith s p \<longleftrightarrow> length p \<le> length s \<and> drop (length s - length p) s = p"

text \<open>\<open>os.path.join\<close> of two components on a POSIX system.\<close>

definition os_path_join :: "pystr \<Rightarrow> pystr \<Rightarrow> pystr" where
  "os_path_join a b =
     (if startswith b (str_lit ''/'') then b
      else if a = [] \<or> endswith a (str_lit ''/'') then a @ b
      else a @ str_lit ''/'' @ b)"

text \<open>
  \<open>str.encode("utf8")\<close>: one to four octets for a code point, and an error for a
  surrogate. Code points of a Python string are below \<open>0x110000\<close>.
\<close>

definition utf8_encode_cp :: "nat \<Rightarrow> py_error + bytes" where
  "utf8_encode_cp c =
     (if c < 0x80 then Inr [char_of c]
      else if c < 0x800 then Inr [char_of (0xC0 + c div 64), char_of (0x80 + c mod 64)]
      else if 0xD800 \<le> c \<and> c \<le> 0xDFFF then Inl UnicodeEncodeError
      else if c < 0x10000 then
        Inr [char_of (0xE0 + c div 4096), char_of (0x80 + (c div 64) mod 64),
             char_of (0x80 + c mod 64)]
      else
        Inr [char_of (0xF0 + c div 262144), char_of (0x80 + (c div 4096) mod 64),
             char_of (0x80 + (c div 64) mod 64), char_of (0x80 + c mod 64)])"

fun utf8_encode :: "pystr \<Rightarrow> py_error + bytes" where
  "utf8_encode [] = Inr []"
| "utf8_encode (c # cs) =
     (case utf8_encode_cp c of
        Inl e \<Rightarrow> Inl e
      | Inr b \<Rightarrow> (case utf8_encode cs of Inl e \<Rightarrow> Inl e | Inr bs \<Rightarrow> Inr (b @ bs)))"

text \<open>The strings that \<open>str.encode("utf8")\<close> accepts: those without a surrogate.\<close>

definition surrogate_free :: "pystr \<Rightarrow> bool" where
  "surrogate_free s = list_all (\<lambda>c. c < 0xD800 \<or> 0xDFFF < c) s"

text \<open>
  Reading a file opened in mode \<open>'r'\<close> translates the line endings \<open>\r\n\<close> and \<open>\r\<close>
  to \<open>\n\<close> after decoding (universal newlines).
\<close>

fun universal_newlines :: "pystr \<Rightarrow> pystr" where
  "universal_newlines [] = []"
| "universal_newlines [c] = [if c = 0x0D then 0x0A else c]"
| "universal_newlines (c # d # ds) =
     (if c = 0x0D then
        (if d = 0x0A then 0x0A # universal_newlines ds
         else 0x0A # universal_newlines (d # ds))
      else c # universal_newlines (d # ds))"

subsection \<open>The environment\<close>

text \<open>
  What the resolver reads from outside the program: the file system as the operating
  system answers for a path string (\<open>os.path.exists\<close>, \<open>os.path.isdir\<close>, \<open>open\<close>),
  the table behind \<open>mimetypes.guess_type\<close>, the shell that \<open>check_output\<close> runs a command
  line in, and the codec of the locale, which \<open>open(path, 'r')\<close> decodes with.
\<close>

datatype node = Dir | File bytes

record env =
  fs :: "pystr \<Rightarrow> node option"
  guess_type :: "pystr \<Rightarrow> pystr option"
  check_output :: "pystr \<Rightarrow> py_error + bytes"
  locale_decode :: "bytes \<Rightarrow> py_error + pystr"

subsection \<open>\<open>resolve_uri\<close>\<close>

definition WEBROOT :: pystr where
  "WEBROOT = str_lit ''webroot''"

definition effective_uri :: "pystr \<Rightarrow> pystr" where
  "effective_uri uri = os_path_join WEBROOT (strip_chars uri (str_lit ''/''))"

text \<open>
  The second component of the result is \<open>None\<close>, a \<open>str\<close> or a \<open>bytes\<close> object,
  depending on the branch taken; the first is \<open>False\<close> (here \<open>None\<close>) or the content.
  A guessed type is false for \<open>if mime_type\<close> when it is \<open>None\<close> or the empty string,
  and is then returned as it is.
\<close>

datatype mime_value = MNone | MStr pystr | MBytes bytes

fun mime_truthy :: "mime_value \<Rightarrow> bool" where
  "mime_truthy MNone = False"
| "mime_truthy (MStr s) = (s \<noteq> [])"
| "mime_truthy (MBytes b) = (b \<noteq> [])"

text \<open>The text branch: \<open>open(effective_uri, 'r').read().encode("utf8")\<close>.\<close>

definition read_text :: "env \<Rightarrow> bytes \<Rightarrow> py_error + bytes" where
  "read_text e data =
     (case locale_decode e data of
        Inl err \<Rightarrow> Inl err
      | Inr s \<Rightarrow> utf8_encode (universal_newlines s))"

text \<open>The branch for a regular file whose guessed type \<open>mime_type\<close> is truthy.\<close>

definition resolve_file :: "env \<Rightarrow> bytes \<Rightarrow> pystr \<Rightarrow> py_error + bytes option \<times> mime_value" where
  "resolve_file e data mime_type =
     (case split_sep mime_type (str_lit ''/'') of
        [base_type, sub_type] \<Rightarrow>
          (case (if base_type = str_lit ''text'' then read_text e data else Inr data) of
             Inl err \<Rightarrow> Inl err
           | Inr content \<Rightarrow>
               (case utf8_encode mime_type of
                  Inl err \<Rightarrow> Inl err
                | Inr m \<Rightarrow> Inr (Some content, MBytes m)))
      | _ \<Rightarrow> Inl ValueError)"

definition resolve_uri :: "env \<Rightarrow> pystr \<Rightarrow> py_error + bytes option \<times> mime_value" where
  "resolve_uri e uri =
     (case fs e (effective_uri uri) of
        None \<Rightarrow> Inl NameError
      | Some Dir \<Rightarrow>
          (case utf8_encode (str_lit ''text/plain'') of
             Inl err \<Rightarrow> Inl err
           | Inr m \<Rightarrow>
               (case check_output e (str_lit ''ls -l '' @ effective_uri uri) of
                  Inl err \<Rightarrow> Inl err
                | Inr content \<Rightarrow> Inr (Some content, MBytes m)))
      | Some (File data) \<Rightarrow>
          (case guess_type e (effective_uri uri) of
             None \<Rightarrow> Inr (None, MNone)
           | Some mime_type \<Rightarrow>
               if mime_type \<noteq> [] then resolve_file e data mime_type
               else Inr (None, MStr mime_type)))"

section \<open>Connection handler and server loop\<close>

text \<open>
  What the handler does with the request text it has received and decoded: the response
  it sends, or the exception that leaves the inner \<open>try\<close>. \<open>NameError\<close> is the one
  exception caught here. Adding a \<open>str\<close> to \<open>bytes\<close>, or joining \<open>False\<close>, is a
  \<open>TypeError\<close>; calling \<open>strip\<close> on \<open>False\<close> an \<open>AttributeError\<close>.
\<close>

definition respond :: "bytes option \<times> mime_value \<Rightarrow> py_error + bytes" where
  "respond r =
     (case r of (content, mime_type) \<Rightarrow>
        if mime_truthy mime_type then
          (case (content, mime_type) of
             (Some c, MBytes m) \<Rightarrow> Inr (response_ok c m)
           | _ \<Rightarrow> Inl TypeError)
        else Inr not_implemented)"

definition handle_request :: "env \<Rightarrow> pystr \<Rightarrow> py_error + bytes" where
  "handle_request e request =
     (case parse_request request of
        Inl err \<Rightarrow> Inl err
      | Inr (method, uri, version, hs) \<Rightarrow>
          if truthy method then
            (case uri of
               None \<Rightarrow> Inl AttributeError
             | Some u \<Rightarrow>
                 (case resolve_uri e u of
                    Inl NameError \<Rightarrow> Inr response_not_found
                  | Inl err \<Rightarrow> Inl err
                  | Inr r \<Rightarrow> respond r))
          else Inr response_method_not_allowed)"

text \<open>
  The server loop over the requests of successive connections. Each connection is closed
  whatever happens (\<open>finally\<close>); an exception other than \<open>KeyboardInterrupt\<close> is caught
  nowhere and ends \<open>server\<close>, so the connections after it are never accepted. With no
  connection left the loop is blocked in \<open>accept\<close>.
\<close>

datatype event = Sent bytes | Closed

datatype outcome = Waiting | Raised py_error

fun server :: "env \<Rightarrow> pystr list \<Rightarrow> event list \<times> outcome" where
  "server e [] = ([], Waiting)"
| "server e (request # later) =
     (case handle_request e request of
        Inl err \<Rightarrow> ([Closed], Raised err)
      | Inr response \<Rightarrow>
          (case server e later of (evs, out) \<Rightarrow> (Sent response # Closed # evs, out)))"

section \<open>Notions of the specification\<close>

text \<open>
  The body of a response: the bytes after the first blank line, that is after the first
  occurrence of two consecutive line terminators.
\<close>

fun body_after_blank :: "bytes \<Rightarrow> bytes option" where
  "body_after_blank [] = None"
| "body_after_blank (c # cs) =
     (if take 4 (c # cs) = CRLF @ CRLF then Some (drop 4 (c # cs))
      else body_after_blank cs)"

text \<open>
  A relative path is logically under a root directory when, after its empty and \<open>.\<close>
  components are dropped and each \<open>..\<close> has cancelled the component before it (as
  \<open>os.path.normpath\<close> does; a \<open>..\<close> with nothing before it to cancel is kept), its
  first component is the root. \<open>st\<close> is the stack of components kept so far, the last
  one first.
\<close>

fun normalize_from :: "pystr list \<Rightarrow> pystr list \<Rightarrow> pystr list" where
  "normalize_from st [] = rev st"
| "normalize_from st (seg # segs) =
     (if seg = [] \<or> seg = str_lit ''.'' then normalize_from st segs
      else if seg = str_lit ''..'' then
        (case st of
           [] \<Rightarrow> normalize_from [seg] segs
         | prev # below \<Rightarrow>
             if prev = str_lit ''..'' then normalize_from (seg # st) segs
             else normalize_from below segs)
      else normalize_from (seg # st) segs)"

definition normpath_components :: "pystr \<Rightarrow> pystr list" where
  "normpath_components p = normalize_from [] (split_sep p (str_lit ''/''))"

definition logically_under :: "pystr \<Rightarrow> pystr \<Rightarrow> bool" where
  "logically_under root p \<longleftrightarrow> take 1 (normpath_components p) = [root]"

section \<open>A sample environment\<close>

text \<open>
  A small web root used to run the functions on concrete requests: a directory, an HTML
  page, a text file with a DOS line ending, a PNG signature, a file with an extension
  that no table knows, a file beside the web root, and a text file in Latin-1 that the
  codec of the locale cannot decode.
\<close>

definition sample_png :: bytes where
  "sample_png = [CHR 0x89, CHR ''P'', CHR ''N'', CHR ''G'', CHR 0x0D, CHR 0x0A, CHR 0x1A, CHR 0x0A]"

definition sample_notes :: bytes where
  "sample_notes = [CHR ''a'', CHR 0x0D, CHR 0x0A, CHR ''b'']"

definition sample_latin1 :: bytes where
  "sample_latin1 = [CHR ''c'', CHR 0xE9]"

definition sample_fs :: "pystr \<Rightarrow> node option" where
  "sample_fs p =
     (if p = str_lit ''webroot/'' then Some Dir
      else if p = str_lit ''webroot/a.html'' then Some (File ''<html></html>'')
      else if p = str_lit ''webroot/notes.txt'' then Some (File sample_notes)
      else if p = str_lit ''webroot/logo.png'' then Some (File sample_png)
      else if p = str_lit ''webroot/data.xyz'' then Some (File ''12345'')
      else if p = str_lit ''webroot/../secret.txt'' then Some (File ''top secret'')
      else if p = str_lit ''webroot/cafe.txt'' then Some (File sample_latin1)
      else None)"

definition sample_guess_type :: "pystr \<Rightarrow> pystr option" where
  "sample_guess_type p =
     (if endswith p (str_lit ''.html'') then Some (str_lit ''text/html'')
      else if endswith p (str_lit ''.txt'') then Some (str_lit ''text/plain'')
      else if endswith p (str_lit ''.png'') then Some (str_lit ''image/png'')
      else None)"

text \<open>
  The ASCII codec: it fails on an octet above 127 and agrees with the UTF-8 and Latin-1
  codecs wherever it succeeds.
\<close>

definition ascii_decode :: "bytes \<Rightarrow> py_error + pystr" where
  "ascii_decode data =
     (if list_all (\<lambda>c. (of_char c :: nat) < 0x80) data then Inr (map of_char data)
      else Inl UnicodeDecodeError)"

definition sample_env :: env where
  "sample_env =
     \<lparr>fs = sample_fs,
      guess_type = sample_guess_type,
      check_output = (\<lambda>cmd. Inr ''total 0''),
      locale_decode = ascii_decode\<rparr>"

section \<open>Auxiliary facts\<close>

lemmas str_evals = str_lit_def is_linebreak_def isspace_def split_ws_def split_sep_def

lemmas path_evals = effective_uri_def os_path_join_def strip_chars_def startswith_def
  endswith_def WEBROOT_def str_lit_def

lemmas sample_evals = sample_env_def sample_fs_def sample_guess_type_def endswith_def
  str_lit_def

lemma utf8_encode_ascii:
  "\<forall>c \<in> set s. (of_char c :: nat) < 0x80 \<Longrightarrow> utf8_encode (str_lit s) = Inr s"
  by (induction s) (simp_all add: str_lit_def utf8_encode_cp_def)

lemma splitlines_nonempty: "request \<noteq> [] \<Longrightarrow> splitlines request \<noteq> []"
  by (cases request) simp_all

text \<open>Once the request line has parsed, the response is decided by the resolver alone.\<close>

lemma handle_request_resolved:
  assumes "parse_request request = Inr (method, Some uri, version, hs)" and "truthy method"
  shows "handle_request e request =
           (case resolve_uri e uri of
              Inl NameError \<Rightarrow> Inr response_not_found
            | Inl err \<Rightarrow> Inl err
            | Inr r \<Rightarrow> respond r)"
  using assms by (simp add: handle_request_def)

lemma png_split:
  "split_sep (str_lit ''image/png'') (str_lit ''/'') = [str_lit ''image'', str_lit ''png'']"
  by (simp add: str_evals)

lemma split_sep_from_nonempty: "split_sep_from sep cur s \<noteq> []"
  by (induction sep cur s rule: split_sep_from.induct) auto

lemma split_sep_from_single:
  "split_sep_from sep cur s = [b] \<Longrightarrow> b = cur @ s"
  by (induction sep cur s rule: split_sep_from.induct)
    (auto simp: split_sep_from_nonempty split: if_splits)

lemma split_sep_from_pair:
  "split_sep_from sep cur s = [a, b] \<Longrightarrow> cur @ s = a @ sep @ b"
proof (induction sep cur s rule: split_sep_from.induct)
  case (1 sep cur)
  then show ?case by simp
next
  case (2 sep cur c cs)
  show ?case
  proof (cases "sep \<noteq> [] \<and> take (length sep) (c # cs) = sep")
    case True
    with "2.prems" have a: "a = cur"
      and b: "split_sep_from sep [] (drop (length sep) (c # cs)) = [b]"
      by simp_all
    from b have "b = drop (length sep) (c # cs)"
      using split_sep_from_single by fastforce
    moreover from True have "c # cs = sep @ drop (length sep) (c # cs)"
      by (metis append_take_drop_id)
    ultimately show ?thesis using a by simp
  next
    case False
    with "2.prems" have "split_sep_from sep (cur @ [c]) cs = [a, b]"
      by (simp split: if_splits)
    with "2.IH"(2) False have "(cur @ [c]) @ cs = a @ sep @ b" by blast
    then show ?thesis by simp
  qed
qed

lemma utf8_encode_append:
  "utf8_encode (a @ b) =
     (case utf8_encode a of
        Inl err \<Rightarrow> Inl err
      | Inr x \<Rightarrow> (case utf8_encode b of Inl err \<Rightarrow> Inl err | Inr y \<Rightarrow> Inr (x @ y)))"
  by (induction a) (auto split: sum.splits)

lemma universal_newlines_id: "0x0D \<notin> set s \<Longrightarrow> universal_newlines s = s"
  by (induction s rule: universal_newlines.induct) auto

lemma text_prefix_encoded:
  assumes "split_sep mt (str_lit ''/'') = [str_lit ''text'', sub]"
    and "utf8_encode mt = Inr m"
  shows "take 5 m = ''text/''"
proof -
  from assms(1) have "mt = str_lit ''text'' @ str_lit ''/'' @ sub"
    using split_sep_from_pair [of "str_lit ''/''" "[]" mt] by (simp add: split_sep_def)
  then have mt: "mt = str_lit ''text/'' @ sub" by (simp add: str_lit_def)
  have "utf8_encode (str_lit ''text/'') = Inr ''text/''"
    by (rule utf8_encode_ascii) simp
  with assms(2) obtain y where "m = ''text/'' @ y"
    unfolding mt utf8_encode_append by (auto split: sum.splits)
  then show ?thesis by simp
qed

text \<open>The header loop raises nothing but \<open>ValueError\<close>, so the sentinels are returned
  for the empty request only.\<close>

lemma parse_headers_error: "parse_headers hs ls = Inl err \<Longrightarrow> err = ValueError"
  by (induction hs ls rule: parse_headers.induct) (auto split: if_splits list.splits)

lemma parse_request_try_cons:
  "parse_request_try (first # rest) \<noteq> Inl IndexError
   \<and> parse_request_try (first # rest) \<noteq> Inr (None, u, v, hs)"
  by (auto simp: parse_request_try_def split: list.splits sum.splits dest: parse_headers_error)

lemma parse_request_sentinel_iff:
  "parse_request request = Inr (None, None, None, Map.empty) \<longleftrightarrow> request = []"
proof
  assume a: "parse_request request = Inr (None, None, None, Map.empty)"
  show "request = []"
  proof (rule ccontr)
    assume "request \<noteq> []"
    then obtain first rest where l: "splitlines request = first # rest"
      using splitlines_nonempty [of request] by (cases "splitlines request") auto
    from parse_request_try_cons [of first rest None None Map.empty] a l
    show False
      by (auto simp: parse_request_def split: sum.splits py_error.splits)
  qed
next
  assume "request = []"
  then show "parse_request request = Inr (None, None, None, Map.empty)"
    by (simp add: parse_request_def parse_request_try_def)
qed

text \<open>
  A header line with exactly one separator is stored as it is written, and a later line
  with the same key replaces the value of an earlier one.
\<close>

lemma header_line_single_separator:
  assumes "line \<noteq> []" and "split_sep line (str_lit '': '') = [k, v]"
  shows "parse_headers hs (line # ls) = parse_headers (hs(k \<mapsto> v)) ls
         \<and> line = k @ str_lit '': '' @ v"
  using assms split_sep_from_pair [of "str_lit '': ''" "[]" line k v]
  by (simp add: split_sep_def)

lemma parse_headers_append:
  "parse_headers hs (ls @ ls') =
     (case parse_headers hs ls of Inl err \<Rightarrow> Inl err | Inr hs' \<Rightarrow> parse_headers hs' ls')"
  by (induction ls arbitrary: hs) (auto split: list.splits)

lemma last_header_wins:
  assumes "parse_headers hs (ls @ [line]) = Inr hs'" and "line \<noteq> []"
    and "split_sep line (str_lit '': '') = [k, v]"
  shows "hs' k = Some v"
  using assms by (auto simp: parse_headers_append split: sum.splits)


text \<open>
  The effective path is always the web root, a slash and the stripped URI; without a
  \<open>..\<close> component in the URI it stays under the web root.
\<close>

lemma strip_chars_head:
  "strip_chars s chars = [] \<or> hd (strip_chars s chars) \<notin> set chars"
proof -
  define P where "P = (\<lambda>c. c \<in> set chars)"
  define ys where "ys = dropWhile P s"
  define t where "t = rev (dropWhile P (rev ys))"
  have st: "strip_chars s chars = t"
    by (simp add: strip_chars_def P_def ys_def t_def)
  have ys: "ys = t @ rev (takeWhile P (rev ys))"
    unfolding t_def by (metis rev_append rev_rev_ident takeWhile_dropWhile_id)
  show ?thesis
  proof (cases "t = []")
    case True
    with st show ?thesis by simp
  next
    case False
    with ys have "hd t = hd ys" and "ys \<noteq> []" by (metis hd_append2, auto)
    moreover from \<open>ys \<noteq> []\<close> have "\<not> P (hd ys)"
      unfolding ys_def by (rule hd_dropWhile)
    ultimately show ?thesis using st by (simp add: P_def)
  qed
qed

lemma effective_uri_eq:
  "effective_uri uri = WEBROOT @ str_lit ''/'' @ strip_chars uri (str_lit ''/'')"
proof -
  have "\<not> startswith (strip_chars uri (str_lit ''/'')) (str_lit ''/'')"
    using strip_chars_head [of uri "str_lit ''/''"]
    by (cases "strip_chars uri (str_lit ''/'')") (auto simp: startswith_def str_lit_def)
  then show ?thesis
    by (simp add: effective_uri_def os_path_join_def WEBROOT_def endswith_def str_lit_def)
qed

lemma split_sep_from_char:
  "c \<notin> set a \<Longrightarrow> split_sep_from [c] cur (a @ c # t) = (cur @ a) # split_sep_from [c] [] t"
  by (induction a arbitrary: cur) auto

lemma normalize_from_no_dotdot:
  "str_lit ''..'' \<notin> set segs \<Longrightarrow>
   normalize_from st segs = rev st @ filter (\<lambda>c. c \<noteq> [] \<and> c \<noteq> str_lit ''.'') segs"
  by (induction segs arbitrary: st) auto

lemma uri_without_dotdot_under_webroot:
  assumes "str_lit ''..'' \<notin> set (split_sep (strip_chars uri (str_lit ''/'')) (str_lit ''/''))"
  shows "logically_under WEBROOT (effective_uri uri)"
proof -
  let ?t = "strip_chars uri (str_lit ''/'')"
  have w: "of_char CHR ''/'' \<notin> set WEBROOT"
    by (simp add: WEBROOT_def str_lit_def)
  have "split_sep (effective_uri uri) (str_lit ''/'') = WEBROOT # split_sep ?t (str_lit ''/'')"
    unfolding effective_uri_eq split_sep_def
    using split_sep_from_char [OF w, of "[]" ?t] by (simp add: str_lit_def)
  moreover have "WEBROOT \<noteq> []" "WEBROOT \<noteq> str_lit ''.''" "WEBROOT \<noteq> str_lit ''..''"
    by (simp_all add: WEBROOT_def str_lit_def)
  ultimately have "normpath_components (effective_uri uri) =
      WEBROOT # filter (\<lambda>c. c \<noteq> [] \<and> c \<noteq> str_lit ''.'') (split_sep ?t (str_lit ''/''))"
    using assms by (simp add: normpath_components_def normalize_from_no_dotdot)
  then show ?thesis by (simp add: logically_under_def)
qed

text \<open>
  The encoder fails exactly on a string with a surrogate, and the translation of line
  endings turns the first carriage return of a text into a line feed.
\<close>

lemma utf8_encode_cp_accepts:
  "c < 0xD800 \<or> 0xDFFF < c \<Longrightarrow> \<exists>b. utf8_encode_cp c = Inr b"
  by (auto simp: utf8_encode_cp_def)

lemma utf8_encode_cp_rejects:
  "\<not> (c < 0xD800 \<or> 0xDFFF < c) \<Longrightarrow> utf8_encode_cp c = Inl UnicodeEncodeError"
  by (auto simp: utf8_encode_cp_def)

lemma utf8_encode_accepts:
  "surrogate_free s \<Longrightarrow> \<exists>b. utf8_encode s = Inr b"
proof (induction s)
  case Nil
  show ?case by simp
next
  case (Cons c cs)
  then obtain b bs where "utf8_encode_cp c = Inr b" and "utf8_encode cs = Inr bs"
    using utf8_encode_cp_accepts [of c] by (auto simp: surrogate_free_def)
  then show ?case by simp
qed

lemma utf8_encode_rejects:
  "\<not> surrogate_free s \<Longrightarrow> utf8_encode s = Inl UnicodeEncodeError"
proof (induction s)
  case Nil
  then show ?case by (simp add: surrogate_free_def)
next
  case (Cons c cs)
  show ?case
  proof (cases "c < 0xD800 \<or> 0xDFFF < c")
    case True
    with Cons.prems have "\<not> surrogate_free cs" by (simp add: surrogate_free_def)
    then have "utf8_encode cs = Inl UnicodeEncodeError" by (rule Cons.IH)
    moreover from True obtain b where "utf8_encode_cp c = Inr b"
      using utf8_encode_cp_accepts by blast
    ultimately show ?thesis by simp
  next
    case False
    then have "utf8_encode_cp c = Inl UnicodeEncodeError" by (rule utf8_encode_cp_rejects)
    then show ?thesis by simp
  qed
qed

lemma surrogate_free_universal_newlines:
  "surrogate_free (universal_newlines s) = surrogate_free s"
  by (induction s rule: universal_newlines.induct) (auto simp: surrogate_free_def)

lemma universal_newlines_first_cr:
  "0x0D \<notin> set p \<Longrightarrow> \<exists>rest. universal_newlines (p @ 0x0D # q) = p @ 0x0A # rest"
proof (induction p)
  case Nil
  show ?case by (cases q) auto
next
  case (Cons c p)
  then obtain rest where r: "universal_newlines (p @ 0x0D # q) = p @ 0x0A # rest" by auto
  obtain d ds where l: "p @ 0x0D # q = d # ds" by (cases p) auto
  from Cons.prems have "c \<noteq> 0x0D" by simp
  then have "universal_newlines (c # d # ds) = c # universal_newlines (d # ds)" by simp
  with r l show ?case by simp
qed

lemma translated_text_differs:
  assumes "0x0D \<in> set s" and "utf8_encode s = Inr data"
    and "utf8_encode (universal_newlines s) = Inr content"
  shows "content \<noteq> data"
proof -
  from assms(1) obtain p q where s: "s = p @ 0x0D # q" and p: "0x0D \<notin> set p"
    by (auto dest: split_list_first)
  from universal_newlines_first_cr [OF p, of q]
  obtain rest where u: "universal_newlines s = p @ 0x0A # rest" unfolding s by auto
  have cr: "utf8_encode_cp 0x0D = Inr [char_of (0x0D :: nat)]"
    and lf: "utf8_encode_cp 0x0A = Inr [char_of (0x0A :: nat)]"
    by (simp_all add: utf8_encode_cp_def)
  from assms(2) obtain bp bq where bp: "utf8_encode p = Inr bp"
    and d: "data = bp @ char_of (0x0D :: nat) # bq"
    unfolding s utf8_encode_append by (auto simp: cr split: sum.splits)
  from assms(3) obtain br where c: "content = bp @ char_of (0x0A :: nat) # br"
    unfolding u utf8_encode_append using bp by (auto simp: lf split: sum.splits)
  show ?thesis unfolding c d by simp
qed

section \<open>Properties\<close>

text \<open>
  Claim C9. The 404, 405 and 501 builders return exactly their status line: the bytes of
  the line and nothing after it, so no header line, no body, and neither a carriage
  return nor a line feed anywhere in the response.
\<close>

theorem error_responses_status_line_only:
  "response_not_found = ''HTTP/1.1 404 Not Found''
   \<and> response_method_not_allowed = ''HTTP/1.1 405 Method Not Allowed''
   \<and> not_implemented = ''HTTP/1.1 501 Not Implemented''
   \<and> CHR 0x0D \<notin> set response_not_found \<and> CHR 0x0A \<notin> set response_not_found
   \<and> CHR 0x0D \<notin> set response_method_not_allowed \<and> CHR 0x0A \<notin> set response_method_not_allowed
   \<and> CHR 0x0D \<notin> set not_implemented \<and> CHR 0x0A \<notin> set not_implemented"
  by (simp add: response_not_found_def response_method_not_allowed_def not_implemented_def)


text \<open>
  Claim C5. Parsing the empty request returns the sentinel for method, uri and version
  and an empty header mapping. The handler then answers 405 Method Not Allowed whatever
  the environment is, so without consulting the resolver.
\<close>

theorem empty_request_method_not_allowed:
  "parse_request [] = Inr (None, None, None, Map.empty)
   \<and> handle_request e [] = Inr response_method_not_allowed
   \<and> response_method_not_allowed = ''HTTP/1.1 405 Method Not Allowed''"
  by (simp add: handle_request_def parse_request_def parse_request_try_def
      response_method_not_allowed_def)

text \<open>
  Claim C10. A non-empty request always has a first line, and whenever that line does
  not split into exactly three whitespace-separated tokens, \<open>parse_request\<close> raises
  \<open>ValueError\<close> instead of returning the sentinels. The \<open>IndexError\<close> that it catches
  arises for the empty request only: the sentinels are returned for that request and for
  no other.
\<close>

theorem malformed_first_line_raises:
  "(request \<noteq> [] \<longrightarrow> splitlines request \<noteq> [])
   \<and> (\<forall>first rest. splitlines request = first # rest \<and> length (split_ws first) \<noteq> 3
        \<longrightarrow> parse_request request = Inl ValueError)
   \<and> (parse_request request = Inr (None, None, None, Map.empty) \<longleftrightarrow> request = [])"
proof (intro conjI allI impI)
  assume "request \<noteq> []"
  then show "splitlines request \<noteq> []" by (rule splitlines_nonempty)
next
  fix first rest
  assume "splitlines request = first # rest \<and> length (split_ws first) \<noteq> 3"
  then have "parse_request_try (splitlines request) = Inl ValueError"
    by (auto simp: parse_request_try_def split: list.splits)
  then show "parse_request request = Inl ValueError"
    by (simp add: parse_request_def)
next
  show "parse_request request = Inr (None, None, None, Map.empty) \<longleftrightarrow> request = []"
    by (rule parse_request_sentinel_iff)
qed

theorem malformed_first_line_raises_witness:
  "str_lit ''GET /'' \<noteq> []
   \<and> splitlines (str_lit ''GET /'') = [str_lit ''GET /'']
   \<and> length (split_ws (str_lit ''GET /'')) = 2
   \<and> parse_request (str_lit ''GET /'') = Inl ValueError"
proof -
  have l: "splitlines (str_lit ''GET /'') = [str_lit ''GET /'']"
    by (simp add: str_evals)
  have n: "length (split_ws (str_lit ''GET /'')) = 2"
    by (simp add: str_evals)
  from malformed_first_line_raises [of "str_lit ''GET /''"] l n
  have "parse_request (str_lit ''GET /'') = Inl ValueError" by simp
  with l n show ?thesis by (simp add: str_lit_def)
qed

text \<open>
  Claim C6. When the URI names an existing regular file whose media type cannot be
  guessed, \<open>resolve_uri\<close> returns the sentinels for content and media type, which is a
  normal return and not the not-found signal, and the handler answers every request for
  that URI with 501 Not Implemented.
\<close>

theorem unknown_media_type_not_implemented:
  assumes "fs e (effective_uri uri) = Some (File data)"
    and "guess_type e (effective_uri uri) = None"
  shows "resolve_uri e uri = Inr (None, MNone)
         \<and> resolve_uri e uri \<noteq> Inl NameError
         \<and> (\<forall>request method version hs.
               parse_request request = Inr (method, Some uri, version, hs) \<and> truthy method
               \<longrightarrow> handle_request e request = Inr not_implemented)"
proof -
  have r: "resolve_uri e uri = Inr (None, MNone)"
    using assms by (simp add: resolve_uri_def)
  have "handle_request e request = Inr not_implemented"
    if "parse_request request = Inr (m, Some uri, v, hs)" and "truthy m"
    for request m v hs
    using handle_request_resolved [OF that] r by (simp add: respond_def)
  with r show ?thesis by simp
qed

theorem unknown_media_type_not_implemented_witness:
  "fs sample_env (effective_uri (str_lit ''/data.xyz'')) = Some (File ''12345'')
   \<and> guess_type sample_env (effective_uri (str_lit ''/data.xyz'')) = None
   \<and> parse_request (str_lit ''GET /data.xyz HTTP/1.1'' @ [0x0D, 0x0A, 0x0D, 0x0A]) =
       Inr (Some (str_lit ''GET''), Some (str_lit ''/data.xyz''), Some (str_lit ''HTTP/1.1''),
            Map.empty)
   \<and> truthy (Some (str_lit ''GET''))
   \<and> resolve_uri sample_env (str_lit ''/data.xyz'') = Inr (None, MNone)
   \<and> handle_request sample_env (str_lit ''GET /data.xyz HTTP/1.1'' @ [0x0D, 0x0A, 0x0D, 0x0A]) =
       Inr ''HTTP/1.1 501 Not Implemented''"
proof -
  have p: "effective_uri (str_lit ''/data.xyz'') = str_lit ''webroot/data.xyz''"
    by (simp add: path_evals)
  have f: "fs sample_env (effective_uri (str_lit ''/data.xyz'')) = Some (File ''12345'')"
    unfolding p by (simp add: sample_evals)
  have g: "guess_type sample_env (effective_uri (str_lit ''/data.xyz'')) = None"
    unfolding p by (simp add: sample_evals)
  have q: "parse_request (str_lit ''GET /data.xyz HTTP/1.1'' @ [0x0D, 0x0A, 0x0D, 0x0A]) =
       Inr (Some (str_lit ''GET''), Some (str_lit ''/data.xyz''), Some (str_lit ''HTTP/1.1''),
            Map.empty)"
    by (simp add: parse_request_def parse_request_try_def str_evals)
  have t: "truthy (Some (str_lit ''GET''))"
    by (simp add: str_lit_def)
  note main = unknown_media_type_not_implemented [OF f g]
  from main q t
  have h: "handle_request sample_env (str_lit ''GET /data.xyz HTTP/1.1'' @ [0x0D, 0x0A, 0x0D, 0x0A]) =
       Inr not_implemented"
    by blast
  from main have r: "resolve_uri sample_env (str_lit ''/data.xyz'') = Inr (None, MNone)"
    by blast
  have n: "not_implemented = ''HTTP/1.1 501 Not Implemented''"
    by (simp add: not_implemented_def)
  show ?thesis using f g q t r h unfolding n by (intro conjI)
qed

text \<open>
  Claim C7. When the path resolved from the URI does not exist, \<open>resolve_uri\<close> raises
  \<open>NameError\<close>, returning no content, and the handler answers every request for that
  URI with 404 Not Found.
\<close>

theorem missing_path_not_found:
  assumes "fs e (effective_uri uri) = None"
  shows "resolve_uri e uri = Inl NameError
         \<and> (\<forall>request method version hs.
               parse_request request = Inr (method, Some uri, version, hs) \<and> truthy method
               \<longrightarrow> handle_request e request = Inr response_not_found)"
proof -
  have r: "resolve_uri e uri = Inl NameError"
    using assms by (simp add: resolve_uri_def)
  have "handle_request e request = Inr response_not_found"
    if "parse_request request = Inr (m, Some uri, v, hs)" and "truthy m"
    for request m v hs
    using handle_request_resolved [OF that] r by simp
  with r show ?thesis by simp
qed

theorem missing_path_not_found_witness:
  "fs sample_env (effective_uri (str_lit ''/missing.txt'')) = None
   \<and> parse_request (str_lit ''GET /missing.txt HTTP/1.1'' @ [0x0D, 0x0A, 0x0D, 0x0A]) =
       Inr (Some (str_lit ''GET''), Some (str_lit ''/missing.txt''),
            Some (str_lit ''HTTP/1.1''), Map.empty)
   \<and> truthy (Some (str_lit ''GET''))
   \<and> resolve_uri sample_env (str_lit ''/missing.txt'') = Inl NameError
   \<and> handle_request sample_env (str_lit ''GET /missing.txt HTTP/1.1'' @ [0x0D, 0x0A, 0x0D, 0x0A]) =
       Inr ''HTTP/1.1 404 Not Found''"
proof -
  have p: "effective_uri (str_lit ''/missing.txt'') = str_lit ''webroot/missing.txt''"
    by (simp add: path_evals)
  have f: "fs sample_env (effective_uri (str_lit ''/missing.txt'')) = None"
    unfolding p by (simp add: sample_evals)
  have q: "parse_request (str_lit ''GET /missing.txt HTTP/1.1'' @ [0x0D, 0x0A, 0x0D, 0x0A]) =
       Inr (Some (str_lit ''GET''), Some (str_lit ''/missing.txt''),
            Some (str_lit ''HTTP/1.1''), Map.empty)"
    by (simp add: parse_request_def parse_request_try_def str_evals)
  have t: "truthy (Some (str_lit ''GET''))"
    by (simp add: str_lit_def)
  note main = missing_path_not_found [OF f]
  from main q t
  have h: "handle_request sample_env (str_lit ''GET /missing.txt HTTP/1.1'' @ [0x0D, 0x0A, 0x0D, 0x0A]) =
       Inr response_not_found"
    by blast
  from main have r: "resolve_uri sample_env (str_lit ''/missing.txt'') = Inl NameError"
    by blast
  have n: "response_not_found = ''HTTP/1.1 404 Not Found''"
    by (simp add: response_not_found_def)
  show ?thesis using f q t r h unfolding n by (intro conjI)
qed

text \<open>
  Claim C8. For a URI that names an existing file whose guessed media type is
  \<open>image/png\<close>, \<open>resolve_uri\<close> returns the bytes of the file unchanged with the type
  \<open>image/png\<close>, the handler passes both to \<open>response_ok\<close>, and the body of that
  response, the bytes after the blank line, is the content of the file.
\<close>

theorem png_round_trip:
  assumes "fs e (effective_uri uri) = Some (File data)"
    and "guess_type e (effective_uri uri) = Some (str_lit ''image/png'')"
  shows "resolve_uri e uri = Inr (Some data, MBytes ''image/png'')
         \<and> respond (Some data, MBytes ''image/png'') = Inr (response_ok data ''image/png'')
         \<and> body_after_blank (response_ok data ''image/png'') = Some data"
proof -
  have enc: "utf8_encode (str_lit ''image/png'') = Inr ''image/png''"
    by (rule utf8_encode_ascii) simp
  have ne: "str_lit ''image'' \<noteq> str_lit ''text''" "str_lit ''image/png'' \<noteq> []"
    by (simp_all add: str_lit_def)
  have "resolve_file e data (str_lit ''image/png'') = Inr (Some data, MBytes ''image/png'')"
    by (simp add: resolve_file_def png_split enc ne)
  then have r: "resolve_uri e uri = Inr (Some data, MBytes ''image/png'')"
    using assms ne by (simp add: resolve_uri_def)
  have b: "body_after_blank (response_ok data ''image/png'') = Some data"
    by (simp add: response_ok_def CRLF_def)
  from r b show ?thesis by (simp add: respond_def)
qed

theorem png_round_trip_witness:
  "fs sample_env (effective_uri (str_lit ''/logo.png'')) = Some (File sample_png)
   \<and> guess_type sample_env (effective_uri (str_lit ''/logo.png'')) = Some (str_lit ''image/png'')
   \<and> resolve_uri sample_env (str_lit ''/logo.png'') = Inr (Some sample_png, MBytes ''image/png'')
   \<and> body_after_blank (response_ok sample_png ''image/png'') = Some sample_png"
proof -
  have p: "effective_uri (str_lit ''/logo.png'') = str_lit ''webroot/logo.png''"
    by (simp add: path_evals)
  have f: "fs sample_env (effective_uri (str_lit ''/logo.png'')) = Some (File sample_png)"
    unfolding p by (simp add: sample_evals)
  have g: "guess_type sample_env (effective_uri (str_lit ''/logo.png'')) =
       Some (str_lit ''image/png'')"
    unfolding p by (simp add: sample_evals)
  note main = png_round_trip [OF f g]
  show ?thesis using f g main by (intro conjI) blast+
qed

text \<open>
  Claim C3, as the code has it. Take a URI that names an existing regular file whose
  guessed media type is \<open>text/sub\<close>. The file is read in text mode. If the codec of
  the locale cannot decode its bytes, \<open>resolve_uri\<close> raises the error of the codec and
  returns nothing; if the decoded text \<open>s\<close> or the media type holds a surrogate, it
  raises \<open>UnicodeEncodeError\<close>. Otherwise it returns the UTF-8 encoding of \<open>s\<close> with
  its line endings translated, together with the encoded media type, which begins with
  \<open>text/\<close>. When the file is the UTF-8 encoding of \<open>s\<close>, the content returned is the
  content on disk if and only if \<open>s\<close> has no carriage return.
\<close>

theorem text_file_reencoded:
  assumes "fs e (effective_uri uri) = Some (File data)"
    and "guess_type e (effective_uri uri) = Some mt"
    and "split_sep mt (str_lit ''/'') = [str_lit ''text'', sub]"
  shows "case locale_decode e data of
           Inl err \<Rightarrow> resolve_uri e uri = Inl err
         | Inr s \<Rightarrow>
             if surrogate_free s \<and> surrogate_free mt then
               (\<exists>content m.
                  utf8_encode (universal_newlines s) = Inr content
                  \<and> utf8_encode mt = Inr m
                  \<and> resolve_uri e uri = Inr (Some content, MBytes m)
                  \<and> take 5 m = ''text/''
                  \<and> (utf8_encode s = Inr data \<longrightarrow> (content = data \<longleftrightarrow> 0x0D \<notin> set s)))
             else resolve_uri e uri = Inl UnicodeEncodeError"
proof -
  have ne: "mt \<noteq> []"
    using assms(3) by (auto simp: split_sep_def)
  have r: "resolve_uri e uri =
      (case read_text e data of
         Inl err \<Rightarrow> Inl err
       | Inr content \<Rightarrow>
           (case utf8_encode mt of Inl err \<Rightarrow> Inl err | Inr m \<Rightarrow> Inr (Some content, MBytes m)))"
    using assms ne by (simp add: resolve_uri_def resolve_file_def)
  show ?thesis
  proof (cases "locale_decode e data")
    case (Inl err)
    then show ?thesis using r by (simp add: read_text_def)
  next
    case (Inr s)
    then have rt: "read_text e data = utf8_encode (universal_newlines s)"
      by (simp add: read_text_def)
    show ?thesis
    proof (cases "surrogate_free s \<and> surrogate_free mt")
      case True
      then obtain content m where c: "utf8_encode (universal_newlines s) = Inr content"
        and m: "utf8_encode mt = Inr m"
        using utf8_encode_accepts [of "universal_newlines s"] utf8_encode_accepts [of mt]
        by (auto simp: surrogate_free_universal_newlines)
      have res: "resolve_uri e uri = Inr (Some content, MBytes m)"
        using r rt c m by simp
      have pre: "take 5 m = ''text/''"
        using assms(3) m by (rule text_prefix_encoded)
      have "content = data \<longleftrightarrow> 0x0D \<notin> set s" if d: "utf8_encode s = Inr data"
      proof
        assume "content = data"
        then show "0x0D \<notin> set s" using translated_text_differs [OF _ d c] by blast
      next
        assume "0x0D \<notin> set s"
        then show "content = data" using c d by (simp add: universal_newlines_id)
      qed
      with c m res pre True Inr show ?thesis by auto
    next
      case False
      have "resolve_uri e uri = Inl UnicodeEncodeError"
      proof (cases "surrogate_free s")
        case True
        with False have "utf8_encode mt = Inl UnicodeEncodeError"
          by (simp add: utf8_encode_rejects)
        moreover from True obtain content where "utf8_encode (universal_newlines s) = Inr content"
          using utf8_encode_accepts [of "universal_newlines s"]
          by (auto simp: surrogate_free_universal_newlines)
        ultimately show ?thesis using r rt by simp
      next
        case False
        then have "utf8_encode (universal_newlines s) = Inl UnicodeEncodeError"
          by (simp add: utf8_encode_rejects surrogate_free_universal_newlines)
        then show ?thesis using r rt by simp
      qed
      with False Inr show ?thesis by simp
    qed
  qed
qed

theorem text_file_reencoded_witness:
  "fs sample_env (effective_uri (str_lit ''/notes.txt'')) = Some (File sample_notes)
   \<and> guess_type sample_env (effective_uri (str_lit ''/notes.txt'')) = Some (str_lit ''text/plain'')
   \<and> split_sep (str_lit ''text/plain'') (str_lit ''/'') = [str_lit ''text'', str_lit ''plain'']
   \<and> locale_decode sample_env sample_notes = Inr (str_lit sample_notes)
   \<and> surrogate_free (str_lit sample_notes) \<and> surrogate_free (str_lit ''text/plain'')
   \<and> utf8_encode (str_lit sample_notes) = Inr sample_notes
   \<and> 0x0D \<in> set (str_lit sample_notes)
   \<and> resolve_uri sample_env (str_lit ''/notes.txt'') =
       Inr (Some [CHR ''a'', CHR 0x0A, CHR ''b''], MBytes ''text/plain'')
   \<and> [CHR ''a'', CHR 0x0A, CHR ''b''] \<noteq> sample_notes
   \<and> fs sample_env (effective_uri (str_lit ''/a.html'')) = Some (File ''<html></html>'')
   \<and> guess_type sample_env (effective_uri (str_lit ''/a.html'')) = Some (str_lit ''text/html'')
   \<and> split_sep (str_lit ''text/html'') (str_lit ''/'') = [str_lit ''text'', str_lit ''html'']
   \<and> locale_decode sample_env ''<html></html>'' = Inr (str_lit ''<html></html>'')
   \<and> surrogate_free (str_lit ''<html></html>'') \<and> surrogate_free (str_lit ''text/html'')
   \<and> utf8_encode (str_lit ''<html></html>'') = Inr ''<html></html>''
   \<and> 0x0D \<notin> set (str_lit ''<html></html>'')
   \<and> resolve_uri sample_env (str_lit ''/a.html'') =
       Inr (Some ''<html></html>'', MBytes ''text/html'')
   \<and> fs sample_env (effective_uri (str_lit ''/cafe.txt'')) = Some (File sample_latin1)
   \<and> guess_type sample_env (effective_uri (str_lit ''/cafe.txt'')) = Some (str_lit ''text/plain'')
   \<and> locale_decode sample_env sample_latin1 = Inl UnicodeDecodeError
   \<and> resolve_uri sample_env (str_lit ''/cafe.txt'') = Inl UnicodeDecodeError"
proof -
  have sp: "split_sep (str_lit ''text/plain'') (str_lit ''/'') = [str_lit ''text'', str_lit ''plain'']"
    by (simp add: str_evals)
  have sfp: "surrogate_free (str_lit ''text/plain'')"
    by (simp add: surrogate_free_def str_lit_def)
  have emp: "utf8_encode (str_lit ''text/plain'') = Inr ''text/plain''"
    by (rule utf8_encode_ascii) simp
  \<comment> \<open>\<open>notes.txt\<close>: the line ending is translated\<close>
  have p1: "effective_uri (str_lit ''/notes.txt'') = str_lit ''webroot/notes.txt''"
    by (simp add: path_evals)
  have f1: "fs sample_env (effective_uri (str_lit ''/notes.txt'')) = Some (File sample_notes)"
    unfolding p1 by (simp add: sample_evals)
  have g1: "guess_type sample_env (effective_uri (str_lit ''/notes.txt'')) =
      Some (str_lit ''text/plain'')"
    unfolding p1 by (simp add: sample_evals)
  have d1: "locale_decode sample_env sample_notes = Inr (str_lit sample_notes)"
    by (simp add: sample_env_def ascii_decode_def sample_notes_def str_lit_def)
  have sf1: "surrogate_free (str_lit sample_notes)"
    by (simp add: surrogate_free_def sample_notes_def str_lit_def)
  have en1: "utf8_encode (str_lit sample_notes) = Inr sample_notes"
    by (rule utf8_encode_ascii) (simp add: sample_notes_def)
  have cr1: "0x0D \<in> set (str_lit sample_notes)"
    by (simp add: sample_notes_def str_lit_def)
  have un1: "utf8_encode (universal_newlines (str_lit sample_notes)) =
      Inr [CHR ''a'', CHR 0x0A, CHR ''b'']"
    by (simp add: sample_notes_def str_lit_def utf8_encode_cp_def char_of_def bit_Suc_0_iff)
  from text_file_reencoded [OF f1 g1 sp] d1 sf1 sfp
  have "\<exists>content m.
      utf8_encode (universal_newlines (str_lit sample_notes)) = Inr content
      \<and> utf8_encode (str_lit ''text/plain'') = Inr m
      \<and> resolve_uri sample_env (str_lit ''/notes.txt'') = Inr (Some content, MBytes m)"
    by auto
  then have r1: "resolve_uri sample_env (str_lit ''/notes.txt'') =
      Inr (Some [CHR ''a'', CHR 0x0A, CHR ''b''], MBytes ''text/plain'')"
    unfolding un1 emp by auto
  have ne1: "[CHR ''a'', CHR 0x0A, CHR ''b''] \<noteq> sample_notes"
    by (simp add: sample_notes_def)
  \<comment> \<open>\<open>a.html\<close>: no carriage return, the bytes come back as they are\<close>
  have sp2: "split_sep (str_lit ''text/html'') (str_lit ''/'') = [str_lit ''text'', str_lit ''html'']"
    by (simp add: str_evals)
  have sfh: "surrogate_free (str_lit ''text/html'')"
    by (simp add: surrogate_free_def str_lit_def)
  have emh: "utf8_encode (str_lit ''text/html'') = Inr ''text/html''"
    by (rule utf8_encode_ascii) simp
  have p2: "effective_uri (str_lit ''/a.html'') = str_lit ''webroot/a.html''"
    by (simp add: path_evals)
  have f2: "fs sample_env (effective_uri (str_lit ''/a.html'')) = Some (File ''<html></html>'')"
    unfolding p2 by (simp add: sample_evals)
  have g2: "guess_type sample_env (effective_uri (str_lit ''/a.html'')) =
      Some (str_lit ''text/html'')"
    unfolding p2 by (simp add: sample_evals)
  have d2: "locale_decode sample_env ''<html></html>'' = Inr (str_lit ''<html></html>'')"
    by (simp add: sample_env_def ascii_decode_def str_lit_def)
  have sf2: "surrogate_free (str_lit ''<html></html>'')"
    by (simp add: surrogate_free_def str_lit_def)
  have en2: "utf8_encode (str_lit ''<html></html>'') = Inr ''<html></html>''"
    by (rule utf8_encode_ascii) simp
  have cr2: "0x0D \<notin> set (str_lit ''<html></html>'')"
    by (simp add: str_lit_def)
  from text_file_reencoded [OF f2 g2 sp2] d2 sf2 sfh
  have "\<exists>content m.
      utf8_encode (str_lit ''text/html'') = Inr m
      \<and> resolve_uri sample_env (str_lit ''/a.html'') = Inr (Some content, MBytes m)
      \<and> (utf8_encode (str_lit ''<html></html>'') = Inr ''<html></html>''
           \<longrightarrow> (content = ''<html></html>'' \<longleftrightarrow> 0x0D \<notin> set (str_lit ''<html></html>'')))"
    by auto
  then have r2: "resolve_uri sample_env (str_lit ''/a.html'') =
      Inr (Some ''<html></html>'', MBytes ''text/html'')"
    using en2 cr2 unfolding emh by auto
  \<comment> \<open>\<open>cafe.txt\<close>: the codec rejects the file\<close>
  have p3: "effective_uri (str_lit ''/cafe.txt'') = str_lit ''webroot/cafe.txt''"
    by (simp add: path_evals)
  have f3: "fs sample_env (effective_uri (str_lit ''/cafe.txt'')) = Some (File sample_latin1)"
    unfolding p3 by (simp add: sample_evals)
  have g3: "guess_type sample_env (effective_uri (str_lit ''/cafe.txt'')) =
      Some (str_lit ''text/plain'')"
    unfolding p3 by (simp add: sample_evals)
  have d3: "locale_decode sample_env sample_latin1 = Inl UnicodeDecodeError"
    by (simp add: sample_env_def ascii_decode_def sample_latin1_def)
  from text_file_reencoded [OF f3 g3 sp] d3
  have r3: "resolve_uri sample_env (str_lit ''/cafe.txt'') = Inl UnicodeDecodeError"
    by simp
  show ?thesis
    using f1 g1 sp d1 sf1 sfp en1 cr1 r1 ne1 f2 g2 sp2 d2 sf2 sfh en2 cr2 r2 f3 g3 d3 r3
    by (intro conjI)
qed

text \<open>
  The claim C3 as stated, that the content returned is byte for byte the content on disk,
  fails for a text file with a DOS line ending: \<open>notes.txt\<close> holds \<open>a\r\nb\<close> and
  \<open>resolve_uri\<close> returns \<open>a\nb\<close>.
\<close>

theorem crlf_text_file_not_byte_exact:
  "fs sample_env (effective_uri (str_lit ''/notes.txt'')) =
     Some (File [CHR ''a'', CHR 0x0D, CHR 0x0A, CHR ''b''])
   \<and> guess_type sample_env (effective_uri (str_lit ''/notes.txt'')) = Some (str_lit ''text/plain'')
   \<and> resolve_uri sample_env (str_lit ''/notes.txt'') =
       Inr (Some [CHR ''a'', CHR 0x0A, CHR ''b''], MBytes ''text/plain'')
   \<and> resolve_uri sample_env (str_lit ''/notes.txt'') \<noteq>
       Inr (Some [CHR ''a'', CHR 0x0D, CHR 0x0A, CHR ''b''], MBytes ''text/plain'')"
proof -
  have p: "effective_uri (str_lit ''/notes.txt'') = str_lit ''webroot/notes.txt''"
    by (simp add: path_evals)
  have f: "fs sample_env (effective_uri (str_lit ''/notes.txt'')) =
     Some (File [CHR ''a'', CHR 0x0D, CHR 0x0A, CHR ''b''])"
    unfolding p by (simp add: sample_evals sample_notes_def)
  have g: "guess_type sample_env (effective_uri (str_lit ''/notes.txt'')) =
       Some (str_lit ''text/plain'')"
    unfolding p by (simp add: sample_evals)
  have sp: "split_sep (str_lit ''text/plain'') (str_lit ''/'') = [str_lit ''text'', str_lit ''plain'']"
    by (simp add: str_evals)
  have rt: "read_text sample_env [CHR ''a'', CHR 0x0D, CHR 0x0A, CHR ''b''] =
       Inr [CHR ''a'', CHR 0x0A, CHR ''b'']"
    by (simp add: read_text_def sample_env_def ascii_decode_def utf8_encode_cp_def char_of_def
        bit_Suc_0_iff)
  have em: "utf8_encode (str_lit ''text/plain'') = Inr ''text/plain''"
    by (rule utf8_encode_ascii) simp
  have ne: "str_lit ''text/plain'' \<noteq> []"
    by (simp add: str_lit_def)
  have "resolve_file sample_env [CHR ''a'', CHR 0x0D, CHR 0x0A, CHR ''b''] (str_lit ''text/plain'') =
       Inr (Some [CHR ''a'', CHR 0x0A, CHR ''b''], MBytes ''text/plain'')"
    by (simp add: resolve_file_def sp rt em)
  then have r: "resolve_uri sample_env (str_lit ''/notes.txt'') =
       Inr (Some [CHR ''a'', CHR 0x0A, CHR ''b''], MBytes ''text/plain'')"
    using f g ne by (simp add: resolve_uri_def)
  show ?thesis using f g r by simp
qed

text \<open>
  Claim C1, at an input where the code departs from it. A request whose header line has
  no \<open>: \<close> separator makes \<open>parse_request\<close> raise \<open>ValueError\<close>. The handler has no
  clause for it: no response is sent, the connection is closed, and the exception ends
  the server loop, so that the next connection is never served.
\<close>

theorem malformed_header_ends_server:
  "parse_request (str_lit ''GET / HTTP/1.1'' @ [0x0D, 0x0A] @ str_lit ''Host'') = Inl ValueError
   \<and> handle_request e (str_lit ''GET / HTTP/1.1'' @ [0x0D, 0x0A] @ str_lit ''Host'') =
       Inl ValueError
   \<and> server e [str_lit ''GET / HTTP/1.1'' @ [0x0D, 0x0A] @ str_lit ''Host'', next_request] =
       ([Closed], Raised ValueError)"
proof -
  have p: "parse_request (str_lit ''GET / HTTP/1.1'' @ [0x0D, 0x0A] @ str_lit ''Host'') =
      Inl ValueError"
    by (simp add: parse_request_def parse_request_try_def str_evals)
  then have h: "handle_request e (str_lit ''GET / HTTP/1.1'' @ [0x0D, 0x0A] @ str_lit ''Host'') =
      Inl ValueError"
    by (simp add: handle_request_def)
  from p h show ?thesis by simp
qed

text \<open>
  Claim C4, at an input where the code departs from it. The header line is split at
  every occurrence of the separator, not at the first only, so a value that contains
  \<open>: \<close> gives three pieces and the unpacking into key and value raises \<open>ValueError\<close>.
\<close>

theorem header_value_with_separator_raises:
  "split_sep (str_lit ''X-Note: a: b'') (str_lit '': '') =
     [str_lit ''X-Note'', str_lit ''a'', str_lit ''b'']
   \<and> parse_request (str_lit ''GET / HTTP/1.1'' @ [0x0D, 0x0A] @ str_lit ''X-Note: a: b'') =
       Inl ValueError"
  by (simp add: parse_request_def parse_request_try_def str_evals)

text \<open>
  Claim C2, at an input where the code departs from it. The URI \<open>/../secret.txt\<close>
  resolves to \<open>webroot/../secret.txt\<close>, which denotes \<open>secret.txt\<close> beside the web root
  and not a path under it; where such a file exists its content is served.
\<close>

theorem dotdot_uri_leaves_webroot:
  "effective_uri (str_lit ''/../secret.txt'') = str_lit ''webroot/../secret.txt''
   \<and> normpath_components (effective_uri (str_lit ''/../secret.txt'')) = [str_lit ''secret.txt'']
   \<and> \<not> logically_under WEBROOT (effective_uri (str_lit ''/../secret.txt''))
   \<and> resolve_uri sample_env (str_lit ''/../secret.txt'') =
       Inr (Some ''top secret'', MBytes ''text/plain'')"
proof -
  have p: "effective_uri (str_lit ''/../secret.txt'') = str_lit ''webroot/../secret.txt''"
    by (simp add: path_evals)
  have n: "normpath_components (str_lit ''webroot/../secret.txt'') = [str_lit ''secret.txt'']"
    by (simp add: normpath_components_def str_evals)
  have u: "\<not> logically_under WEBROOT (str_lit ''webroot/../secret.txt'')"
    unfolding logically_under_def n by (simp add: WEBROOT_def str_lit_def)
  have f: "fs sample_env (str_lit ''webroot/../secret.txt'') = Some (File ''top secret'')"
    by (simp add: sample_evals)
  have g: "guess_type sample_env (str_lit ''webroot/../secret.txt'') = Some (str_lit ''text/plain'')"
    by (simp add: sample_evals)
  have sp: "split_sep (str_lit ''text/plain'') (str_lit ''/'') = [str_lit ''text'', str_lit ''plain'']"
    by (simp add: str_evals)
  have d: "locale_decode sample_env ''top secret'' = Inr (str_lit ''top secret'')"
    by (simp add: sample_env_def ascii_decode_def str_lit_def)
  have cr: "0x0D \<notin> set (str_lit ''top secret'')"
    by (simp add: str_lit_def)
  have en: "utf8_encode (str_lit ''top secret'') = Inr ''top secret''"
    by (rule utf8_encode_ascii) simp
  have em: "utf8_encode (str_lit ''text/plain'') = Inr ''text/plain''"
    by (rule utf8_encode_ascii) simp
  have ne: "str_lit ''text/plain'' \<noteq> []"
    by (simp add: str_lit_def)
  have "resolve_file sample_env ''top secret'' (str_lit ''text/plain'') =
       Inr (Some ''top secret'', MBytes ''text/plain'')"
    using cr by (simp add: resolve_file_def sp read_text_def d universal_newlines_id en em)
  then have r: "resolve_uri sample_env (str_lit ''/../secret.txt'') =
       Inr (Some ''top secret'', MBytes ''text/plain'')"
    using f g ne by (simp add: resolve_uri_def p)
  show ?thesis using p n u r by simp
qed

end
